theory Spec2Isabelle
  imports Main "HOL-Library.AList" "HOL-Library.Word"
begin

section \<open>Data model\<close>

text \<open>
  The permit of \<^verbatim>\<open>core/permit/permit.ts\<close>. JavaScript strings are \<open>string\<close>, the
  numbers \<open>expiration\<close> and \<open>validatorId\<close> are integers (the schema admits integers only),
  an object literal is an association list in insertion order, and \<open>undefined\<close> is \<open>None\<close>.
\<close>

datatype permitType = Self | Sharing | Recipient

text \<open>
  Modelled from the spec: the class \<open>SealingKey\<close> of \<^verbatim>\<open>core/sdk/sealing\<close> is not among
  the sources; the spec gives it as an opaque keypair \<open>{publicKey, privateKey}\<close>. The
  constructor takes the private key first, as the calls in \<^verbatim>\<open>Permit.deserialize\<close> do.
\<close>

datatype SealingKey = SealingKey (privateKey: string) (publicKey: string)

text \<open>The plain \<open>{publicKey, privateKey}\<close> object of a serialized permit.\<close>

record SerializedSealingPair =
  s_publicKey :: string
  s_privateKey :: string

text \<open>
  \<open>PermitInterface\<close>, with the representation of the sealing pair left open: the class
  instance in a \<open>Permit\<close>, the plain object in a \<open>SerializedPermit\<close>.
\<close>

record 'k PermitInterface =
  name :: string
  type :: permitType
  issuer :: string
  expiration :: int
  recipient :: string
  validatorId :: int
  validatorContract :: string
  sealingPair :: 'k
  issuerSignature :: string
  recipientSignature :: string

text \<open>\<open>PermitMetadata\<close> adds \<open>_signedChainId\<close>.\<close>

record 'k PermitData = "'k PermitInterface" +
  signedChainId :: "string option"

type_synonym Permit = "SealingKey PermitData"

type_synonym SerializedPermit = "SerializedSealingPair PermitData"

text \<open>JavaScript values, as far as the permit code builds or walks them.\<close>

datatype jsval =
    JUndefined
  | JNull
  | JBool bool
  | JNum int
  | JBigInt int
  | JStr string
  | JArr "jsval list"
  | JObj "(string \<times> jsval) list"

type_synonym jsobject = "(string \<times> jsval) list"

text \<open>Every \<open>throw\<close> and every rejected promise of the permit code.\<close>

datatype error =
    ChainIdUndefined
  | SignerUndefined
  | SignerRejected string
  | ValidationFailed
  | TypeError
  | InvalidAddress string

definition ZeroAddress :: string where
  "ZeroAddress = ''0x'' @ replicate 40 (CHR ''0'')"

section \<open>Validity\<close>

text \<open>
  \<^verbatim>\<open>isSigned\<close>: the signature of the active party is not the sentinel \<open>"0x"\<close>. The
  final \<^verbatim>\<open>return false\<close> of the source is unreachable for the three permit types.
\<close>

definition isSigned :: "Permit \<Rightarrow> bool" where
  "isSigned p =
     (if type p = Self \<or> type p = Sharing then issuerSignature p \<noteq> ''0x''
      else if type p = Recipient then recipientSignature p \<noteq> ''0x''
      else False)"

text \<open>
  \<^verbatim>\<open>isExpired\<close>: \<open>this.expiration < Math.floor(Date.now() / 1000)\<close>. The clock
  \<open>Date.now()\<close> (milliseconds) is the argument \<open>now\<close>.
\<close>

definition isExpired :: "int \<Rightarrow> Permit \<Rightarrow> bool" where
  "isExpired now p = (expiration p < now div 1000)"

record Validity =
  valid :: bool
  error :: "string option"

definition isValid :: "int \<Rightarrow> Permit \<Rightarrow> Validity" where
  "isValid now p =
     (if isExpired now p then \<lparr>valid = False, error = Some ''expired''\<rparr>
      else if \<not> isSigned p then \<lparr>valid = False, error = Some ''not-signed''\<rparr>
      else \<lparr>valid = True, error = None\<rparr>)"

text \<open>A permit used at concrete inputs: an unsigned self permit that expires at 1000.\<close>

definition examplePermit :: Permit where
  "examplePermit =
     \<lparr>name = ''example'', type = Self, issuer = ''0x'' @ replicate 40 (CHR ''1''),
      expiration = 1000, recipient = ZeroAddress, validatorId = 0,
      validatorContract = ZeroAddress,
      sealingPair = SealingKey ''priv'' ''pub'',
      issuerSignature = ''0x'', recipientSignature = ''0x'',
      signedChainId = None\<rparr>"

section \<open>Signature types, message and domain (\<^verbatim>\<open>generate.ts\<close>)\<close>

definition PermitSignatureAllFields :: "(string \<times> string) list" where
  "PermitSignatureAllFields =
     [(''issuer'', ''address''),
      (''expiration'', ''uint64''),
      (''recipient'', ''address''),
      (''validatorId'', ''uint256''),
      (''validatorContract'', ''address''),
      (''sealingKey'', ''bytes32''),
      (''issuerSignature'', ''bytes'')]"

datatype PermitSignaturePrimaryType =
  PermissionedIssuerSelf | PermissionedIssuerShared | PermissionedRecipient

text \<open>The key of a primary type in \<open>SignatureTypes\<close>, as a string.\<close>

fun primaryTypeName :: "PermitSignaturePrimaryType \<Rightarrow> string" where
  "primaryTypeName PermissionedIssuerSelf = ''PermissionedIssuerSelf''"
| "primaryTypeName PermissionedIssuerShared = ''PermissionedIssuerShared''"
| "primaryTypeName PermissionedRecipient = ''PermissionedRecipient''"

fun SignatureTypes :: "PermitSignaturePrimaryType \<Rightarrow> string list" where
  "SignatureTypes PermissionedIssuerSelf =
     [''issuer'', ''expiration'', ''recipient'', ''validatorId'', ''validatorContract'',
      ''sealingKey'']"
| "SignatureTypes PermissionedIssuerShared =
     [''issuer'', ''expiration'', ''recipient'', ''validatorId'', ''validatorContract'']"
| "SignatureTypes PermissionedRecipient = [''sealingKey'', ''issuerSignature'']"

record TypesAndMessage =
  types :: "(string \<times> (string \<times> string) list) list"
  primaryType :: string
  message :: jsobject

text \<open>
  \<^verbatim>\<open>getSignatureTypesAndMessage\<close>: the type declaration is the master list filtered by
  \<open>fields.includes\<close>; the message is built by \<open>fields.forEach\<close>, which assigns
  \<open>message[field] = values[field]\<close> for each field that is a key of \<open>values\<close>
  (\<open>field in values\<close>). Assigning a property is \<open>AList.update\<close>: a new key goes
  last. The argument \<open>fields\<close> is \<open>fieldList\<close> here.
\<close>

definition getSignatureTypesAndMessage ::
  "PermitSignaturePrimaryType \<Rightarrow> string list \<Rightarrow> jsobject \<Rightarrow> TypesAndMessage" where
  "getSignatureTypesAndMessage pt fieldList values =
     \<lparr>types =
        [(primaryTypeName pt,
          filter (\<lambda>fieldType. fst fieldType \<in> set fieldList) PermitSignatureAllFields)],
      primaryType = primaryTypeName pt,
      message =
        fold (\<lambda>field msg.
                case map_of values field of
                  Some v \<Rightarrow> AList.update field v msg
                | None \<Rightarrow> msg)
             fieldList []\<rparr>"

subsection \<open>\<open>parseInt\<close>\<close>

text \<open>
  The result of \<open>parseInt\<close>: \<open>NaN\<close>, a number with an integer value, or an infinity.
  (The number \<open>-0\<close> is \<open>Number 0\<close> here.)
\<close>

datatype jsnumber = NaN | Number int | PosInfinity | NegInfinity

text \<open>
  The double nearest to a natural number, as a natural number: a number of more than
  53 bits keeps its 53 leading bits, rounded to nearest, ties to even.
\<close>

fun bitLength :: "nat \<Rightarrow> nat" where
  "bitLength n = (if n = 0 then 0 else Suc (bitLength (n div 2)))"

declare bitLength.simps [simp del]

definition roundToDouble :: "nat \<Rightarrow> nat" where
  "roundToDouble n =
     (let e = bitLength n - 53 in
      if e = 0 then n
      else (let q = n div 2 ^ e; r = n mod 2 ^ e; half = 2 ^ (e - 1)
            in (if half < r \<or> (r = half \<and> odd q) then q + 1 else q) * 2 ^ e))"

text \<open>The Number value of \<open>sign \<times> mathInt\<close>; from \<open>2^1024\<close> on it is an infinity.\<close>

definition toNumber :: "int \<Rightarrow> nat \<Rightarrow> jsnumber" where
  "toNumber sign mathInt =
     (let d = roundToDouble mathInt in
      if 2 ^ 1024 \<le> d then (if sign < 0 then NegInfinity else PosInfinity)
      else Number (sign * int d))"

text \<open>
  The white space and line terminators that \<open>parseInt\<close> skips, strings being UTF-8:
  TAB, LF, VT, FF, CR, SP, U+00A0, U+1680, U+2000 to U+200A, U+2028, U+2029, U+202F,
  U+205F, U+3000 and U+FEFF.
\<close>

definition StrWhiteSpace :: "string list" where
  "StrWhiteSpace =
     [[CHR 0x09], [CHR 0x0A], [CHR 0x0B], [CHR 0x0C], [CHR 0x0D], [CHR 0x20],
      [CHR 0xC2, CHR 0xA0], [CHR 0xE1, CHR 0x9A, CHR 0x80]]
     @ map (\<lambda>b. [CHR 0xE2, CHR 0x80, char_of (b::nat)])
         [0x80, 0x81, 0x82, 0x83, 0x84, 0x85, 0x86, 0x87, 0x88, 0x89, 0x8A, 0xA8, 0xA9, 0xAF]
     @ [[CHR 0xE2, CHR 0x81, CHR 0x9F], [CHR 0xE3, CHR 0x80, CHR 0x80],
        [CHR 0xEF, CHR 0xBB, CHR 0xBF]]"

definition leadingWhiteSpace :: "string \<Rightarrow> string option" where
  "leadingWhiteSpace s = List.find (\<lambda>w. w \<noteq> [] \<and> take (length w) s = w) StrWhiteSpace"

lemma leadingWhiteSpace_shorter:
  "leadingWhiteSpace s = Some w \<Longrightarrow> length s - length w < length s"
proof -
  assume "leadingWhiteSpace s = Some w"
  then have w: "w \<noteq> []" and t: "take (length w) s = w"
    by (auto simp: leadingWhiteSpace_def find_Some_iff)
  from w t have "s \<noteq> []" by auto
  with w show ?thesis by (cases s; cases w) auto
qed

function trimStart :: "string \<Rightarrow> string" where
  "trimStart s =
     (case leadingWhiteSpace s of
        Some w \<Rightarrow> trimStart (drop (length w) s)
      | None \<Rightarrow> s)"
  by pat_completeness auto
termination
  by (relation "measure length") (auto dest: leadingWhiteSpace_shorter)

declare trimStart.simps [simp del]

text \<open>The value of a digit: \<open>0\<close> to \<open>9\<close>, then the letters in either case.\<close>

definition digitVal :: "char \<Rightarrow> nat option" where
  "digitVal c =
     (let n = (of_char c :: nat) in
      if 48 \<le> n \<and> n \<le> 57 then Some (n - 48)
      else if 97 \<le> n \<and> n \<le> 122 then Some (n - 87)
      else if 65 \<le> n \<and> n \<le> 90 then Some (n - 55)
      else None)"

definition isRadixDigit :: "nat \<Rightarrow> char \<Rightarrow> bool" where
  "isRadixDigit R c = (case digitVal c of Some d \<Rightarrow> d < R | None \<Rightarrow> False)"

definition digitsValue :: "nat \<Rightarrow> string \<Rightarrow> nat" where
  "digitsValue R Z =
     foldl (\<lambda>acc c. acc * R + (case digitVal c of Some d \<Rightarrow> d | None \<Rightarrow> 0)) 0 Z"

text \<open>
  \<open>parseInt(string)\<close> with no radix, step by step as ECMAScript defines it: trim the
  start, read a sign, strip \<open>0x\<close> or \<open>0X\<close> (then the radix is 16, else 10), take the
  longest prefix of digits, answer \<open>NaN\<close> when that prefix is empty and else the Number
  value of the signed integer it denotes. It never throws. (For a decimal numeral of
  more than 20 significant digits ECMAScript lets an implementation read the digits
  after the 20th as zeros; the digits are read exactly here.)
\<close>

definition unsignedPart :: "string \<Rightarrow> string" where
  "unsignedPart inputString =
     (let S = trimStart inputString
      in if S \<noteq> [] \<and> (hd S = CHR ''+'' \<or> hd S = CHR ''-'') then tl S else S)"

definition parseInt :: "string \<Rightarrow> jsnumber" where
  "parseInt inputString =
     (let S = trimStart inputString;
          sign = (if S \<noteq> [] \<and> hd S = CHR ''-'' then - 1 else 1 :: int);
          S = unsignedPart inputString;
          stripPrefix = (2 \<le> length S \<and> (take 2 S = ''0x'' \<or> take 2 S = ''0X''));
          R = (if stripPrefix then 16 else 10 :: nat);
          S = (if stripPrefix then drop 2 S else S);
          Z = takeWhile (isRadixDigit R) S
      in if Z = [] then NaN else toNumber sign (digitsValue R Z))"

record SignatureDomain =
  domainName :: string
  version :: string
  chainId :: jsnumber
  verifyingContract :: string

text \<open>\<^verbatim>\<open>getSignatureDomain\<close>: an object literal; nothing in it throws.\<close>

definition getSignatureDomain :: "string \<Rightarrow> SignatureDomain" where
  "getSignatureDomain c =
     \<lparr>domainName = ''Fhenix Permission 1.0.0'',
      version = ''1.0.0'',
      chainId = parseInt c,
      verifyingContract = ZeroAddress\<rparr>"




section \<open>Permission and signature parameters (\<^verbatim>\<open>permit.ts\<close>)\<close>

definition getInterface :: "Permit \<Rightarrow> SealingKey PermitInterface" where
  "getInterface p =
     \<lparr>name = name p,
      type = type p,
      issuer = issuer p,
      expiration = expiration p,
      recipient = recipient p,
      validatorId = validatorId p,
      validatorContract = validatorContract p,
      sealingPair = sealingPair p,
      issuerSignature = issuerSignature p,
      recipientSignature = recipientSignature p\<rparr>"

text \<open>
  \<^verbatim>\<open>getPermission\<close>. The schema \<open>FullyFormedPermitValidator\<close> of \<^verbatim>\<open>permit.z\<close> is not
  among the sources and is the argument \<open>fullyFormed\<close>. The permission keeps the keys
  of the interface in their order, without \<open>name\<close>, \<open>type\<close> and \<open>sealingPair\<close>, and
  gains \<open>sealingKey\<close> last.
\<close>

definition getPermission ::
  "(SealingKey PermitInterface \<Rightarrow> bool) \<Rightarrow> bool \<Rightarrow> Permit \<Rightarrow> error + jsobject" where
  "getPermission fullyFormed skipValidation p =
     (let permitData = getInterface p in
      if \<not> skipValidation \<and> \<not> fullyFormed permitData then Inl ValidationFailed
      else Inr
        [(''issuer'', JStr (issuer permitData)),
         (''expiration'', JNum (expiration permitData)),
         (''recipient'', JStr (recipient permitData)),
         (''validatorId'', JNum (validatorId permitData)),
         (''validatorContract'', JStr (validatorContract permitData)),
         (''issuerSignature'', JStr (issuerSignature permitData)),
         (''recipientSignature'', JStr (recipientSignature permitData)),
         (''sealingKey'', JStr (''0x'' @ publicKey (sealingPair permitData)))])"

record SignatureParams = TypesAndMessage +
  domain :: SignatureDomain

definition getSignatureParams ::
  "(SealingKey PermitInterface \<Rightarrow> bool) \<Rightarrow> string \<Rightarrow> PermitSignaturePrimaryType \<Rightarrow> Permit
     \<Rightarrow> error + SignatureParams" where
  "getSignatureParams fullyFormed c pt p =
     (let d = getSignatureDomain c in
      case getPermission fullyFormed True p of
        Inl e \<Rightarrow> Inl e
      | Inr permission \<Rightarrow>
          (let tm = getSignatureTypesAndMessage pt (SignatureTypes pt) permission in
           Inr \<lparr>types = types tm, primaryType = primaryType tm, message = message tm,
                domain = d\<rparr>))"

text \<open>The primary type that \<^verbatim>\<open>sign\<close> selects for a permit, assignment by assignment.\<close>

definition signPrimaryType :: "Permit \<Rightarrow> PermitSignaturePrimaryType" where
  "signPrimaryType p =
     (let pt = PermissionedIssuerSelf;
          pt = (if type p = Self then PermissionedIssuerSelf else pt);
          pt = (if type p = Sharing then PermissionedIssuerShared else pt);
          pt = (if type p = Recipient then PermissionedRecipient else pt)
      in pt)"

section \<open>Hash, serialization and export (\<^verbatim>\<open>permit.ts\<close>)\<close>

text \<open>
  The functions of other packages that the permit code calls, taken as parameters:
  \<open>keccak256\<close>, \<open>id\<close> and \<open>getChecksumAddress\<close> of ethers, \<open>JSON.stringify\<close> (with
  its indentation, 0 for none), \<open>chainIsHardhat\<close>, \<open>hardhatMockUnseal\<close> and
  \<open>SealingKey.unseal\<close> of the SDK, which are not among the sources, and the text that
  JavaScript gives for a built-in object used as a property key.
  The digest of \<open>keccak256\<close> is 32 bytes, a \<open>256 word\<close>, which ethers returns as the
  string \<open>hexlify\<close> of it: \<open>0x\<close> and 64 hex digits.
\<close>

record Externals =
  keccak256 :: "string \<Rightarrow> 256 word"
  ethers_id :: "string \<Rightarrow> string"
  JSON_stringify :: "jsval \<Rightarrow> nat \<Rightarrow> string"
  getChecksumAddress :: "string \<Rightarrow> string"
  chainIsHardhat :: "string option \<Rightarrow> bool"
  hardhatMockUnseal :: "string \<Rightarrow> int"
  sealingKeyUnseal :: "SealingKey \<Rightarrow> string \<Rightarrow> int"
  builtinToString :: "string \<Rightarrow> string"

definition hexDigits :: string where
  "hexDigits = ''0123456789abcdef''"

definition hexlify :: "256 word \<Rightarrow> string" where
  "hexlify w =
     ''0x'' @ map (\<lambda>i. hexDigits ! unat (take_bit 4 (drop_bit (4 * i) w))) (rev [0..<64])"

fun typeName :: "permitType \<Rightarrow> string" where
  "typeName Self = ''self''"
| "typeName Sharing = ''sharing''"
| "typeName Recipient = ''recipient''"

text \<open>
  \<^verbatim>\<open>getHash\<close>: the object literal that is hashed, and the hash
  \<open>keccak256(id(JSON.stringify(...)))\<close> of it.
\<close>

definition hashInput :: "Permit \<Rightarrow> jsval" where
  "hashInput p =
     JObj [(''type'', JStr (typeName (type p))),
           (''issuer'', JStr (issuer p)),
           (''expiration'', JNum (expiration p)),
           (''recipient'', JStr (recipient p)),
           (''validatorId'', JNum (validatorId p)),
           (''validatorContract'', JStr (validatorContract p))]"

definition getHash :: "Externals \<Rightarrow> Permit \<Rightarrow> string" where
  "getHash ext p =
     hexlify (keccak256 ext (ethers_id ext (JSON_stringify ext (hashInput p) 0)))"


text \<open>The constructor of \<open>Permit\<close>: it copies the options and the metadata.\<close>

definition newPermit :: "SealingKey PermitInterface \<Rightarrow> string option \<Rightarrow> Permit" where
  "newPermit options metadataSignedChainId =
     \<lparr>name = name options,
      type = type options,
      issuer = issuer options,
      expiration = expiration options,
      recipient = recipient options,
      validatorId = validatorId options,
      validatorContract = validatorContract options,
      sealingPair = sealingPair options,
      issuerSignature = issuerSignature options,
      recipientSignature = recipientSignature options,
      signedChainId = metadataSignedChainId\<rparr>"

definition serialize :: "Permit \<Rightarrow> SerializedPermit" where
  "serialize p =
     (let i = getInterface p in
      \<lparr>name = name i,
       type = type i,
       issuer = issuer i,
       expiration = expiration i,
       recipient = recipient i,
       validatorId = validatorId i,
       validatorContract = validatorContract i,
       sealingPair =
         \<lparr>s_publicKey = publicKey (sealingPair i), s_privateKey = privateKey (sealingPair i)\<rparr>,
       issuerSignature = issuerSignature i,
       recipientSignature = recipientSignature i,
       signedChainId = signedChainId p\<rparr>)"

definition deserialize :: "SerializedPermit \<Rightarrow> Permit" where
  "deserialize s =
     newPermit
       \<lparr>name = name s,
        type = type s,
        issuer = issuer s,
        expiration = expiration s,
        recipient = recipient s,
        validatorId = validatorId s,
        validatorContract = validatorContract s,
        sealingPair = SealingKey (s_privateKey (sealingPair s)) (s_publicKey (sealingPair s)),
        issuerSignature = issuerSignature s,
        recipientSignature = recipientSignature s\<rparr>
       (signedChainId s)"

text \<open>
  \<^verbatim>\<open>export\<close>: the object \<open>cleanedPermit\<close> after its four conditional assignments, and
  its rendering by \<open>JSON.stringify(cleanedPermit, undefined, 2)\<close>.
\<close>

definition cleanedPermit :: "Permit \<Rightarrow> jsobject" where
  "cleanedPermit p =
     (let c = [(''name'', JStr (name p)),
               (''type'', JStr (typeName (type p))),
               (''issuer'', JStr (issuer p)),
               (''expiration'', JNum (expiration p))];
          c = (if recipient p \<noteq> ZeroAddress
               then AList.update ''recipient'' (JStr (recipient p)) c else c);
          c = (if validatorId p \<noteq> 0
               then AList.update ''validatorId'' (JNum (validatorId p)) c else c);
          c = (if validatorContract p \<noteq> ZeroAddress
               then AList.update ''validatorContract'' (JStr (validatorContract p)) c else c);
          c = (if type p = Sharing \<and> issuerSignature p \<noteq> ''0x''
               then AList.update ''issuerSignature'' (JStr (issuerSignature p)) c else c)
      in c)"

definition exportPermit :: "Externals \<Rightarrow> Permit \<Rightarrow> string" where
  "exportPermit ext p = JSON_stringify ext (JObj (cleanedPermit p)) 2"

section \<open>Signing (\<^verbatim>\<open>permit.ts\<close>)\<close>

text \<open>
  The signer is an outside capability: \<open>signTypedData\<close> answers a signature or rejects
  (\<open>Inl\<close> with its reason).
\<close>

record AbstractSigner =
  signTypedData ::
    "SignatureDomain \<Rightarrow> (string \<times> (string \<times> string) list) list \<Rightarrow> jsobject \<Rightarrow> string + string"

text \<open>
  \<^verbatim>\<open>sign\<close> mutates the permit, so it returns how the call ended together with the
  permit as it is afterwards. Its argument \<open>chainId\<close> is \<open>chain\<close> here.
\<close>

definition sign ::
  "(SealingKey PermitInterface \<Rightarrow> bool) \<Rightarrow> string option \<Rightarrow> AbstractSigner option \<Rightarrow> Permit
     \<Rightarrow> (error + unit) \<times> Permit" where
  "sign fullyFormed chain signer p =
     (case chain of
        None \<Rightarrow> (Inl ChainIdUndefined, p)
      | Some c \<Rightarrow>
     (case signer of
        None \<Rightarrow> (Inl SignerUndefined, p)
      | Some s \<Rightarrow>
     (case getSignatureParams fullyFormed c (signPrimaryType p) p of
        Inl e \<Rightarrow> (Inl e, p)
      | Inr params \<Rightarrow>
     (case signTypedData s (domain params) (types params) (message params) of
        Inl reason \<Rightarrow> (Inl (SignerRejected reason), p)
      | Inr signature \<Rightarrow>
          (let p1 = (if type p = Self \<or> type p = Sharing
                     then p\<lparr>issuerSignature := signature\<rparr> else p);
               p2 = (if type p1 = Recipient
                     then p1\<lparr>recipientSignature := signature\<rparr> else p1)
           in (Inr (), p2\<lparr>signedChainId := Some c\<rparr>))))))"

section \<open>The permit store (\<^verbatim>\<open>store.ts\<close>)\<close>

text \<open>
  The two records of the store are plain JavaScript objects. Their own properties are
  maps: a key that holds \<open>undefined\<close> is present with the value \<open>None\<close>, a key that
  was never assigned is absent.
\<close>

record PermitsStore =
  permits :: "string \<rightharpoonup> (string \<rightharpoonup> SerializedPermit option)"
  activePermitHash :: "string \<rightharpoonup> string option"

definition initialStore :: PermitsStore where
  "initialStore = \<lparr>permits = Map.empty, activePermitHash = Map.empty\<rparr>"

subsection \<open>Inherited properties\<close>

text \<open>
  A plain object without an own property of some name inherits the property of that
  name from \<open>Object.prototype\<close>. These are its names; \<open>__proto__\<close> is an accessor
  that answers \<open>Object.prototype\<close> itself, \<open>constructor\<close> is the function
  \<open>Object\<close>, all others are built-in functions.
\<close>

definition objectPrototypeNames :: "string list" where
  "objectPrototypeNames =
     [''constructor'', ''__defineGetter__'', ''__defineSetter__'', ''hasOwnProperty'',
      ''__lookupGetter__'', ''__lookupSetter__'', ''isPrototypeOf'',
      ''propertyIsEnumerable'', ''toString'', ''valueOf'', ''__proto__'',
      ''toLocaleString'']"

text \<open>
  The further properties of the built-in object found under such a name, and those of
  them that cannot be assigned (the code is strict, so assigning one throws).
\<close>

definition objectStatics :: "string list" where
  "objectStatics =
     [''prototype'', ''assign'', ''create'', ''defineProperties'', ''defineProperty'',
      ''entries'', ''freeze'', ''fromEntries'', ''getOwnPropertyDescriptor'',
      ''getOwnPropertyDescriptors'', ''getOwnPropertyNames'', ''getOwnPropertySymbols'',
      ''getPrototypeOf'', ''groupBy'', ''hasOwn'', ''is'', ''isExtensible'', ''isFrozen'',
      ''isSealed'', ''keys'', ''preventExtensions'', ''seal'', ''setPrototypeOf'', ''values'']"

definition builtinProperties :: "string \<Rightarrow> string list" where
  "builtinProperties a =
     (if a = ''__proto__'' then []
      else [''length'', ''name'', ''arguments'', ''caller'', ''apply'', ''bind'', ''call'']
           @ (if a = ''constructor'' then objectStatics else []))"

definition builtinReadOnly :: "string \<Rightarrow> string list" where
  "builtinReadOnly a =
     (if a = ''__proto__'' then []
      else [''length'', ''name'', ''arguments'', ''caller'']
           @ (if a = ''constructor'' then [''prototype''] else []))"

text \<open>
  The state that the store functions read and write: the store, and the properties
  they have assigned on the built-in object under each inherited name (an account
  with such a name and no record of its own leads there). A property assigned on
  \<open>Object.prototype\<close> is kept on it; that the other objects then inherit it is not
  followed.
\<close>

record World =
  store :: PermitsStore
  assigned :: "string \<Rightarrow> (string \<rightharpoonup> SerializedPermit option)"

definition initialWorld :: World where
  "initialWorld = \<lparr>store = initialStore, assigned = (\<lambda>a. Map.empty)\<rparr>"

text \<open>What \<open>permits[account]\<close> evaluates to.\<close>

datatype recordRef =
    NoRecord
  | OwnRecord "string \<rightharpoonup> SerializedPermit option"
  | Builtin string

definition recordAt :: "World \<Rightarrow> string \<Rightarrow> recordRef" where
  "recordAt w account =
     (case permits (store w) account of
        Some m \<Rightarrow> OwnRecord m
      | None \<Rightarrow> if account \<in> set objectPrototypeNames then Builtin account else NoRecord)"

text \<open>
  What \<open>record?.[hash]\<close> evaluates to: \<open>undefined\<close> or \<open>null\<close>, a serialized permit, or
  a foreign value that is neither (a built-in function or object, a number, a string).
\<close>

datatype slotValue = Undefined | Saved SerializedPermit | Foreign

fun slotAt :: "World \<Rightarrow> recordRef \<Rightarrow> string \<Rightarrow> slotValue" where
  "slotAt w NoRecord hash = Undefined"
| "slotAt w (OwnRecord m) hash =
     (case m hash of
        Some None \<Rightarrow> Undefined
      | Some (Some permit) \<Rightarrow> Saved permit
      | None \<Rightarrow> if hash \<in> set objectPrototypeNames then Foreign else Undefined)"
| "slotAt w (Builtin a) hash =
     (case assigned w a hash of
        Some None \<Rightarrow> Undefined
      | Some (Some permit) \<Rightarrow> Saved permit
      | None \<Rightarrow>
          if a = ''__proto__'' \<and> hash = ''__proto__'' then Undefined
          else if hash \<in> set objectPrototypeNames \<or> hash \<in> set (builtinProperties a)
          then Foreign else Undefined)"

subsection \<open>Permits\<close>

text \<open>
  \<^verbatim>\<open>getPermit\<close>. \<open>Permit.deserialize\<close> reads \<open>sealingPair.privateKey\<close> of its
  argument, so on a foreign value it throws a \<open>TypeError\<close>.
\<close>

definition getPermit :: "string option \<Rightarrow> string option \<Rightarrow> World \<Rightarrow> error + Permit option" where
  "getPermit account hash w =
     (case account of None \<Rightarrow> Inr None | Some a \<Rightarrow>
      case hash of None \<Rightarrow> Inr None | Some h \<Rightarrow>
        (case slotAt w (recordAt w a) h of
           Undefined \<Rightarrow> Inr None
         | Saved savedPermit \<Rightarrow> Inr (Some (deserialize savedPermit))
         | Foreign \<Rightarrow> Inl TypeError))"

text \<open>
  What \<open>activePermitHash[account]\<close> evaluates to: nothing, a hash, or the built-in
  object inherited under the account's name.
\<close>

datatype pointerValue = NoPointer | Pointer string | BuiltinObject string

definition activePointer :: "World \<Rightarrow> string \<Rightarrow> pointerValue" where
  "activePointer w account =
     (case activePermitHash (store w) account of
        Some None \<Rightarrow> NoPointer
      | Some (Some hash) \<Rightarrow> Pointer hash
      | None \<Rightarrow> if account \<in> set objectPrototypeNames then BuiltinObject account
                else NoPointer)"



text \<open>
  \<^verbatim>\<open>setPermit\<close>: the account's record is created when \<open>permits[account]\<close> is
  \<open>null\<close> or \<open>undefined\<close>, which an inherited built-in object is not; then the slot of
  the permit's hash is assigned, on the record of the store or on the built-in object.
  The hash is the text of a digest, never \<open>__proto__\<close> or another built-in name.
  After the first statement there is a record, so the last branch is never taken.
\<close>

definition setPermit :: "Externals \<Rightarrow> string \<Rightarrow> Permit \<Rightarrow> World \<Rightarrow> World" where
  "setPermit ext account permit w =
     (let w1 = (if recordAt w account = NoRecord
                then w\<lparr>store := (store w)\<lparr>permits := (permits (store w))(account \<mapsto> Map.empty)\<rparr>\<rparr>
                else w);
          hash = getHash ext permit
      in case recordAt w1 account of
           OwnRecord m \<Rightarrow>
             w1\<lparr>store := (store w1)
                  \<lparr>permits := (permits (store w1))(account \<mapsto> m(hash \<mapsto> Some (serialize permit)))\<rparr>\<rparr>
         | Builtin a \<Rightarrow>
             w1\<lparr>assigned := (assigned w1)(a := (assigned w1 a)(hash \<mapsto> Some (serialize permit)))\<rparr>
         | NoRecord \<Rightarrow> w1)"

text \<open>
  \<^verbatim>\<open>removePermit\<close> assigns \<open>undefined\<close> into \<open>state.permits[account]\<close> without
  creating it: where that is \<open>undefined\<close> the assignment throws a \<open>TypeError\<close> inside
  \<open>produce\<close> and the store is not replaced. Assigning \<open>undefined\<close> to \<open>__proto__\<close>
  calls the inherited setter, which ignores it; assigning a read-only property of a
  built-in object throws.
\<close>

definition removePermit :: "string \<Rightarrow> string \<Rightarrow> World \<Rightarrow> error + World" where
  "removePermit account hash w =
     (case recordAt w account of
        NoRecord \<Rightarrow> Inl TypeError
      | OwnRecord m \<Rightarrow>
          if hash = ''__proto__'' then Inr w
          else Inr (w\<lparr>store := (store w)
                        \<lparr>permits := (permits (store w))(account \<mapsto> m(hash \<mapsto> None))\<rparr>\<rparr>)
      | Builtin a \<Rightarrow>
          if hash = ''__proto__'' then Inr w
          else if hash \<in> set (builtinReadOnly a) then Inl TypeError
          else Inr (w\<lparr>assigned := (assigned w)(a := (assigned w a)(hash \<mapsto> None))\<rparr>))"

subsection \<open>Active permit hash\<close>

definition getActivePermitHash :: "string option \<Rightarrow> World \<Rightarrow> pointerValue" where
  "getActivePermitHash account w =
     (case account of None \<Rightarrow> NoPointer | Some a \<Rightarrow> activePointer w a)"


definition removeActivePermitHash :: "string \<Rightarrow> World \<Rightarrow> World" where
  "removeActivePermitHash account w =
     (if account = ''__proto__'' then w
      else w\<lparr>store := (store w)
               \<lparr>activePermitHash := (activePermitHash (store w))(account \<mapsto> None)\<rparr>\<rparr>)"

text \<open>
  Stand-ins for the outside functions, used only to evaluate at concrete inputs: the
  JSON text is as many characters as the \<open>expiration\<close> of the object says, the digest
  is the length of its argument, the sealing key decrypts every ciphertext to 1, and
  no chain is a Hardhat chain.
\<close>

definition exampleExternals :: Externals where
  "exampleExternals =
     \<lparr>keccak256 = (\<lambda>s. of_nat (length s)),
      ethers_id = (\<lambda>s. s),
      JSON_stringify =
        (\<lambda>v n. case v of
                 JObj kvs \<Rightarrow>
                   (case map_of kvs ''expiration'' of
                      Some (JNum i) \<Rightarrow> replicate (nat i) (CHR ''1'')
                    | _ \<Rightarrow> [])
               | _ \<Rightarrow> []),
      getChecksumAddress = (\<lambda>s. s),
      chainIsHardhat = (\<lambda>c. False),
      hardhatMockUnseal = (\<lambda>ct. 0),
      sealingKeyUnseal = (\<lambda>k ct. 1),
      builtinToString = (\<lambda>a. ''[object Object]'')\<rparr>"

section \<open>Unsealing (\<^verbatim>\<open>types/base.ts\<close>, \<^verbatim>\<open>permit.ts\<close>)\<close>

datatype FheTypes =
    Bool | Uint2 | Uint4 | Uint6 | Uint8 | Uint10 | Uint12 | Uint14 | Uint16 | Uint32
  | Uint64 | Uint128 | Uint160 | Uint256 | Uint512 | Uint1024 | Uint2048
  | Int2 | Int4 | Int6 | Int8 | Int10 | Int12 | Int14 | Int16 | Int32 | Int64 | Int128
  | Int160 | Int256

text \<open>The number of each member of the enum.\<close>

fun FheTypes_value :: "FheTypes \<Rightarrow> int" where
  "FheTypes_value Bool = 0"
| "FheTypes_value Uint2 = 1"
| "FheTypes_value Uint4 = 2"
| "FheTypes_value Uint6 = 3"
| "FheTypes_value Uint8 = 4"
| "FheTypes_value Uint10 = 5"
| "FheTypes_value Uint12 = 6"
| "FheTypes_value Uint14 = 7"
| "FheTypes_value Uint16 = 8"
| "FheTypes_value Uint32 = 9"
| "FheTypes_value Uint64 = 10"
| "FheTypes_value Uint128 = 11"
| "FheTypes_value Uint160 = 12"
| "FheTypes_value Uint256 = 13"
| "FheTypes_value Uint512 = 14"
| "FheTypes_value Uint1024 = 15"
| "FheTypes_value Uint2048 = 16"
| "FheTypes_value Int2 = 17"
| "FheTypes_value Int4 = 18"
| "FheTypes_value Int6 = 19"
| "FheTypes_value Int8 = 20"
| "FheTypes_value Int10 = 21"
| "FheTypes_value Int12 = 22"
| "FheTypes_value Int14 = 23"
| "FheTypes_value Int16 = 24"
| "FheTypes_value Int32 = 25"
| "FheTypes_value Int64 = 26"
| "FheTypes_value Int128 = 27"
| "FheTypes_value Int160 = 28"
| "FheTypes_value Int256 = 29"

definition FheUintUTypes :: "FheTypes list" where
  "FheUintUTypes = [Uint8, Uint16, Uint32, Uint64, Uint128, Uint256]"

definition FheAllUTypes :: "FheTypes list" where
  "FheAllUTypes = [Bool, Uint8, Uint16, Uint32, Uint64, Uint128, Uint256, Uint160]"

record SealedItem =
  data :: string
  utype :: int

text \<open>
  Modelled from the spec: \<open>getAsSealedItem\<close>, \<open>isSealedBool\<close>, \<open>isSealedAddress\<close> and
  \<open>isSealedUint\<close> of \<^verbatim>\<open>types\<close> are not among the sources. The spec has a sealed item
  recognised by a discriminant field that says whether it is a sealed boolean, address
  or unsigned integer. Here the item is an object with a string \<open>data\<close> (the ciphertext
  that \<^verbatim>\<open>unseal\<close> reads) and a number \<open>utype\<close> from \<open>FheAllUTypes\<close>: \<open>Bool\<close> for a
  boolean, \<open>Uint160\<close> for an address, a member of \<open>FheUintUTypes\<close> for an integer.
\<close>

definition getAsSealedItem :: "jsval \<Rightarrow> SealedItem option" where
  "getAsSealedItem item =
     (case item of
        JObj kvs \<Rightarrow>
          (case (map_of kvs ''data'', map_of kvs ''utype'') of
             (Some (JStr d), Some (JNum u)) \<Rightarrow>
               if u \<in> set (map FheTypes_value FheAllUTypes)
               then Some \<lparr>data = d, utype = u\<rparr> else None
           | _ \<Rightarrow> None)
      | _ \<Rightarrow> None)"

definition isSealedBool :: "SealedItem \<Rightarrow> bool" where
  "isSealedBool s = (utype s = FheTypes_value Bool)"

definition isSealedAddress :: "SealedItem \<Rightarrow> bool" where
  "isSealedAddress s = (utype s = FheTypes_value Uint160)"

definition isSealedUint :: "SealedItem \<Rightarrow> bool" where
  "isSealedUint s = (utype s \<in> set (map FheTypes_value FheUintUTypes))"

text \<open>\<open>bn.toString(16)\<close> of a bigint: lower-case hex digits, a minus sign when negative.\<close>

function natToHex :: "nat \<Rightarrow> string" where
  "natToHex n =
     (if n < 16 then [hexDigits ! n]
      else natToHex (n div 16) @ [hexDigits ! (n mod 16)])"
  by pat_completeness auto
termination
  by (relation "measure id") auto

declare natToHex.simps [simp del]

definition toString16 :: "int \<Rightarrow> string" where
  "toString16 bn = (if bn < 0 then ''-'' @ natToHex (nat (- bn)) else natToHex (nat bn))"

text \<open>\<open>s.slice(-k)\<close>: the last \<open>k\<close> characters, all of \<open>s\<close> when it is shorter.\<close>

definition sliceLast :: "nat \<Rightarrow> string \<Rightarrow> string" where
  "sliceLast k s = drop (length s - k) s"

text \<open>
  \<open>getAddress\<close> of ethers on the strings that \<^verbatim>\<open>unseal\<close> passes, which start with
  \<open>0x\<close>: the string must match \<open>/^(0x)?[0-9a-fA-F]{40}$/\<close>, else the call throws
  "invalid address"; a string of mixed case must equal its checksummed form, else the
  call throws "bad address checksum". (The other accepted form, an ICAP address, starts
  with \<open>XE\<close>.)
\<close>

definition isAddressHex :: "string \<Rightarrow> bool" where
  "isAddressHex a =
     (let body = (if take 2 a = ''0x'' then drop 2 a else a)
      in length body = 40 \<and> list_all (\<lambda>c. c \<in> set ''0123456789abcdefABCDEF'') body)"

definition mixedCase :: "string \<Rightarrow> bool" where
  "mixedCase a = ((\<exists>c \<in> set a. c \<in> set ''ABCDEF'') \<and> (\<exists>c \<in> set a. c \<in> set ''abcdef''))"

definition getAddress :: "Externals \<Rightarrow> string \<Rightarrow> error + string" where
  "getAddress ext a =
     (if isAddressHex a
      then (let a' = (if take 2 a = ''0x'' then a else ''0x'' @ a);
                result = getChecksumAddress ext a'
            in if mixedCase a' \<and> result \<noteq> a' then Inl (InvalidAddress a') else Inr result)
      else Inl (InvalidAddress a))"

text \<open>The results of a list of calls made in order: the first one that throws ends it.\<close>

fun sequence :: "(error + 'a) list \<Rightarrow> error + 'a list" where
  "sequence [] = Inr []"
| "sequence (r # rs) =
     (case r of
        Inl e \<Rightarrow> Inl e
      | Inr v \<Rightarrow> (case sequence rs of Inl e \<Rightarrow> Inl e | Inr vs \<Rightarrow> Inr (v # vs)))"

text \<open>
  The first block of \<^verbatim>\<open>unseal\<close>, for a sealed item: \<open>Some\<close> of what it returns or
  throws, \<open>None\<close> when control goes on to the code after it.
\<close>

definition unsealSealedItem :: "Externals \<Rightarrow> Permit \<Rightarrow> jsval \<Rightarrow> (error + jsval) option" where
  "unsealSealedItem ext p item =
     (case getAsSealedItem item of
        None \<Rightarrow> None
      | Some sealedItem \<Rightarrow>
          (let bn = (if chainIsHardhat ext (signedChainId p)
                     then hardhatMockUnseal ext (data sealedItem)
                     else sealingKeyUnseal ext (sealingPair p) (data sealedItem))
           in if isSealedBool sealedItem then Some (Inr (JBool (bn \<noteq> 0)))
              else if isSealedAddress sealedItem
              then Some (case getAddress ext (''0x'' @ sliceLast 40 (toString16 bn)) of
                           Inl e \<Rightarrow> Inl e
                         | Inr a \<Rightarrow> Inr (JStr a))
              else if isSealedUint sealedItem then Some (Inr (JBigInt bn))
              else None))"

text \<open>
  \<^verbatim>\<open>unseal\<close>: a sealed item first; else an array maps over its elements and an object
  over its keys, in order; else the item itself.
\<close>

fun unseal :: "Externals \<Rightarrow> Permit \<Rightarrow> jsval \<Rightarrow> error + jsval" where
  "unseal ext p (JArr xs) =
     (case unsealSealedItem ext p (JArr xs) of
        Some r \<Rightarrow> r
      | None \<Rightarrow>
          (case sequence (map (unseal ext p) xs) of
             Inl e \<Rightarrow> Inl e
           | Inr ys \<Rightarrow> Inr (JArr ys)))"
| "unseal ext p (JObj kvs) =
     (case unsealSealedItem ext p (JObj kvs) of
        Some r \<Rightarrow> r
      | None \<Rightarrow>
          (case sequence
                  (map (\<lambda>kv. case unseal ext p (snd kv) of
                                Inl e \<Rightarrow> Inl e
                              | Inr v \<Rightarrow> Inr (fst kv, v))
                     kvs) of
             Inl e \<Rightarrow> Inl e
           | Inr result \<Rightarrow> Inr (JObj result)))"
| "unseal ext p item =
     (case unsealSealedItem ext p item of
        Some r \<Rightarrow> r
      | None \<Rightarrow> Inr item)"

section \<open>Auxiliary facts\<close>

subsection \<open>What \<open>parseInt\<close> reads\<close>

lemma leadingWhiteSpace_hd:
  assumes "leadingWhiteSpace s = Some w"
  shows "s \<noteq> [] \<and> hd s \<in> hd ` set StrWhiteSpace"
proof -
  from assms have w: "w \<in> set StrWhiteSpace" "w \<noteq> []" and t: "take (length w) s = w"
    by (auto simp: leadingWhiteSpace_def find_Some_iff)
  from w(2) t have ne: "s \<noteq> []" by auto
  from w(2) t ne have "hd s = hd w"
    by (cases s; cases w) auto
  with w(1) ne show ?thesis by auto
qed

lemma whiteSpace_heads:
  "of_char ` hd ` set StrWhiteSpace = {9, 10, 11, 12, 13, 32, 194, 225, 226, 227, 239 :: nat}"
  by (simp add: StrWhiteSpace_def)

lemma trimStart_no_space:
  assumes "s = [] \<or> (of_char (hd s) :: nat) \<notin> {9, 10, 11, 12, 13, 32, 194, 225, 226, 227, 239}"
  shows "trimStart s = s"
proof -
  have "leadingWhiteSpace s = None"
  proof (cases "leadingWhiteSpace s")
    case (Some w)
    from leadingWhiteSpace_hd [OF Some]
    have "s \<noteq> []" "of_char (hd s) \<in> (of_char ` hd ` set StrWhiteSpace :: nat set)"
      by auto
    with assms show ?thesis unfolding whiteSpace_heads by simp
  qed simp
  then show ?thesis by (simp add: trimStart.simps)
qed






lemma bitLength_le: "n < 2 ^ k \<Longrightarrow> bitLength n \<le> k"
proof (induction n arbitrary: k rule: bitLength.induct)
  case (1 n)
  show ?case
  proof (cases "n = 0")
    case True
    then show ?thesis by (subst bitLength.simps) simp
  next
    case False
    with 1(2) obtain j where j: "k = Suc j" by (cases k) auto
    with 1(2) have "n div 2 < 2 ^ j" by auto
    with 1(1) [OF False] have "bitLength (n div 2) \<le> j" by simp
    with False j show ?thesis by (subst bitLength.simps) simp
  qed
qed

lemma bitLength_power: "bitLength (2 ^ k) = Suc k"
proof (induction k)
  case 0
  show ?case by (simp add: bitLength.simps)
next
  case (Suc k)
  then show ?case by (subst bitLength.simps) simp
qed





text \<open>A numeral above \<open>2^53\<close> is read as the nearest double.\<close>

lemma parseInt_rounds: "parseInt ''9007199254740993'' = Number 9007199254740992"
proof -
  have t: "trimStart ''9007199254740993'' = ''9007199254740993''"
    by (intro trimStart_no_space) simp
  have v: "digitsValue 10 ''9007199254740993'' = 9007199254740993"
    by (simp add: digitsValue_def digitVal_def)
  have "(9007199254740993::nat) = 2 ^ 53 + 1" by simp
  have b1: "bitLength 9007199254740993 \<le> 54"
    by (rule bitLength_le) simp
  have "bitLength (9007199254740993 div 2) = bitLength (2 ^ 52)" by simp
  then have b2: "bitLength 9007199254740993 = 54"
    by (subst bitLength.simps) (simp add: bitLength_power del: power_numeral)
  have r: "roundToDouble 9007199254740993 = 9007199254740992"
    by (simp add: roundToDouble_def b2 Let_def)
  have n: "toNumber 1 9007199254740993 = Number 9007199254740992"
    unfolding toNumber_def r by simp
  show ?thesis
    by (simp add: parseInt_def unsignedPart_def t isRadixDigit_def digitVal_def v n Let_def)
qed

subsection \<open>Digests as hex strings\<close>

lemma hexlify_prefix: "\<exists>ds. hexlify w = CHR ''0'' # CHR ''x'' # ds"
  by (simp add: hexlify_def)



subsection \<open>Serialization\<close>

lemma deserialize_serialize: "deserialize (serialize p) = p"
  by (simp add: deserialize_def serialize_def newPermit_def getInterface_def)

subsection \<open>The store after \<open>setPermit\<close>\<close>

lemma getHash_fresh:
  "getHash ext X \<noteq> ''__proto__''"
  "getHash ext X \<notin> set objectPrototypeNames"
  "getHash ext X \<notin> set (builtinReadOnly a)"
proof -
  obtain ds where h: "getHash ext X = CHR ''0'' # CHR ''x'' # ds"
    unfolding getHash_def using hexlify_prefix by blast
  show "getHash ext X \<noteq> ''__proto__''"
    and "getHash ext X \<notin> set objectPrototypeNames"
    and "getHash ext X \<notin> set (builtinReadOnly a)"
    unfolding h by (simp_all add: objectPrototypeNames_def builtinReadOnly_def)
qed

lemma permits_setPermit:
  "permits (store (setPermit ext A X w)) =
     (case recordAt w A of
        NoRecord \<Rightarrow> (permits (store w))(A \<mapsto> Map.empty(getHash ext X \<mapsto> Some (serialize X)))
      | OwnRecord m \<Rightarrow> (permits (store w))(A \<mapsto> m(getHash ext X \<mapsto> Some (serialize X)))
      | Builtin a \<Rightarrow> permits (store w))"
  by (auto simp: setPermit_def recordAt_def Let_def split: option.splits)



text \<open>Reads and writes that reach inherited properties.\<close>

lemma getPermit_inherited_hash:
  "getPermit (Some ''0xA'') (Some ''constructor'')
     (setPermit exampleExternals ''0xA'' examplePermit initialWorld) = Inl TypeError"
  using getHash_fresh(2) [of exampleExternals examplePermit]
  by (auto simp: getPermit_def recordAt_def permits_setPermit initialWorld_def
      initialStore_def objectPrototypeNames_def)

lemma removePermit_inherited_account:
  "removePermit ''toString'' ''0x01'' initialWorld
     = Inr (initialWorld\<lparr>assigned := (assigned initialWorld)
                                         (''toString'' := Map.empty(''0x01'' \<mapsto> None))\<rparr>)"
  "removePermit ''toString'' ''length'' initialWorld = Inl TypeError"
  "removePermit ''__proto__'' ''__proto__'' initialWorld = Inr initialWorld"
  by (simp_all add: removePermit_def recordAt_def initialWorld_def initialStore_def
      objectPrototypeNames_def builtinReadOnly_def)

subsection \<open>Hex numerals and unsealing the leaves\<close>

lemma length_natToHex: "0 < k \<Longrightarrow> n < 16 ^ k \<Longrightarrow> length (natToHex n) \<le> k"
proof (induction n arbitrary: k rule: natToHex.induct)
  case (1 n)
  show ?case
  proof (cases "n < 16")
    case True
    with 1(2) show ?thesis by (subst natToHex.simps) simp
  next
    case False
    with 1(2,3) have k: "1 < k" by (cases "k = 1") auto
    then obtain j where j: "k = Suc j" "0 < j" by (cases k) auto
    with 1(3) have "n div 16 < 16 ^ j"
      by (simp add: less_mult_imp_div_less mult.commute)
    with 1(1) [OF False j(2)] have "length (natToHex (n div 16)) \<le> j" by simp
    with False j show ?thesis by (subst natToHex.simps) simp
  qed
qed

lemma natToHex_nonempty: "natToHex n \<noteq> []"
  by (subst natToHex.simps) simp

lemma toString16_one: "toString16 1 = ''1''"
  by (simp add: toString16_def natToHex.simps hexDigits_def)

lemma natToHex_digits: "set (natToHex n) \<subseteq> set hexDigits"
proof (induction n rule: natToHex.induct)
  case (1 n)
  have len: "length hexDigits = 16" by (simp add: hexDigits_def)
  have "n mod 16 < length hexDigits" by (simp add: len)
  then have m: "hexDigits ! (n mod 16) \<in> set hexDigits" by (rule nth_mem)
  show ?case
  proof (cases "n < 16")
    case True
    then have "hexDigits ! n \<in> set hexDigits" by (intro nth_mem) (simp add: len)
    with True show ?thesis by (subst natToHex.simps) simp
  next
    case False
    with 1 m show ?thesis by (subst natToHex.simps) simp
  qed
qed

lemma length_natToHex_ge: "16 ^ k \<le> n \<Longrightarrow> k < length (natToHex n)"
proof (induction n arbitrary: k rule: natToHex.induct)
  case (1 n)
  show ?case
  proof (cases "n < 16")
    case True
    have "k = 0"
    proof (rule ccontr)
      assume "k \<noteq> 0"
      then have "(16::nat) ^ 1 \<le> 16 ^ k" by (intro power_increasing) auto
      with True 1(2) show False by simp
    qed
    with True show ?thesis by (subst natToHex.simps) simp
  next
    case False
    show ?thesis
    proof (cases k)
      case 0
      then show ?thesis by (simp add: natToHex_nonempty)
    next
      case (Suc j)
      with 1(2) have "16 ^ j \<le> n div 16" by (simp add: less_eq_div_iff_mult_less_eq mult.commute)
      with 1(1) [OF False] have "j < length (natToHex (n div 16))" by simp
      with False Suc show ?thesis by (subst natToHex.simps) simp
    qed
  qed
qed

text \<open>What \<^verbatim>\<open>unseal\<close> does where the claim about it holds.\<close>

lemma unseal_scalar:
  "unseal ext p (JNum n) = Inr (JNum n)"
  "unseal ext p (JBigInt n) = Inr (JBigInt n)"
  "unseal ext p (JStr s) = Inr (JStr s)"
  "unseal ext p (JBool b) = Inr (JBool b)"
  by (simp_all add: unsealSealedItem_def getAsSealedItem_def)

lemma unseal_long_address:
  assumes "\<not> chainIsHardhat ext (signedChainId p)"
    and "sealingKeyUnseal ext (sealingPair p) ct = bn"
    and "16 ^ 39 \<le> bn"
  shows "unseal ext p (JObj [(''data'', JStr ct), (''utype'', JNum (FheTypes_value Uint160))])
           = Inr (JStr (getChecksumAddress ext (''0x'' @ sliceLast 40 (toString16 bn))))"
proof -
  let ?s = "natToHex (nat bn)"
  let ?t = "sliceLast 40 (toString16 bn)"
  have "(0::int) \<le> 16 ^ 39" by simp
  then have pos: "0 \<le> bn" using assms(3) by (rule order_trans)
  with assms(3) have "16 ^ 39 \<le> nat bn"
    by (simp add: le_nat_iff)
  then have "39 < length ?s" by (rule length_natToHex_ge)
  with pos have len: "length ?t = 40"
    by (simp add: sliceLast_def toString16_def)
  have sub: "set ?t \<subseteq> set hexDigits"
    using pos natToHex_digits [of "nat bn"] set_drop_subset [of "length ?s - 40" ?s]
    by (auto simp: sliceLast_def toString16_def)
  have inc: "set hexDigits \<subseteq> set ''0123456789abcdefABCDEF''"
    by (simp add: hexDigits_def)
  have hex: "list_all (\<lambda>c. c \<in> set ''0123456789abcdefABCDEF'') ?t"
    unfolding list_all_iff using sub inc by blast
  have dis: "\<forall>c \<in> set ''0x'' \<union> set hexDigits. c \<notin> set ''ABCDEF''"
    by (simp add: hexDigits_def)
  have "set (''0x'' @ ?t) \<subseteq> set ''0x'' \<union> set hexDigits"
    using sub by (simp only: set_append) blast
  with dis have "\<forall>c \<in> set (''0x'' @ ?t). c \<notin> set ''ABCDEF''"
    by blast
  then have low: "\<not> mixedCase (''0x'' @ ?t)"
    unfolding mixedCase_def by blast
  from len hex have "isAddressHex (''0x'' @ ?t)"
    by (simp add: isAddressHex_def)
  with low have "getAddress ext (''0x'' @ ?t) = Inr (getChecksumAddress ext (''0x'' @ ?t))"
    by (simp add: getAddress_def)
  with assms(1,2) show ?thesis
    by (simp add: unsealSealedItem_def getAsSealedItem_def FheAllUTypes_def isSealedBool_def
        isSealedAddress_def)
qed

lemma unseal_bool_uint:
  assumes "\<not> chainIsHardhat ext (signedChainId p)"
    and "sealingKeyUnseal ext (sealingPair p) ct = bn"
  shows "unseal ext p (JObj [(''data'', JStr ct), (''utype'', JNum (FheTypes_value Bool))])
           = Inr (JBool (bn \<noteq> 0))"
    and "u \<in> set FheUintUTypes \<Longrightarrow>
         unseal ext p (JObj [(''data'', JStr ct), (''utype'', JNum (FheTypes_value u))])
           = Inr (JBigInt bn)"
  using assms
  by (auto simp: unsealSealedItem_def getAsSealedItem_def FheAllUTypes_def FheUintUTypes_def
      isSealedBool_def isSealedAddress_def isSealedUint_def)

section \<open>Claims\<close>

subsection \<open>Validity\<close>

text \<open>
  C1, as stated: \<open>isValid\<close> answers "expired" whenever the expiration is at or before the
  current unix time. It does not: at the very second of the expiration the permit is
  not expired, and the unsigned example permit is reported "not-signed".
\<close>

theorem isValid_expired_at_now_counterexample:
  "expiration examplePermit \<le> 1000999 div 1000
   \<and> isValid 1000999 examplePermit = \<lparr>valid = False, error = Some ''not-signed''\<rparr>"
  by (simp add: isValid_def isExpired_def isSigned_def examplePermit_def)

text \<open>
  C1, amended: \<open>isValid\<close> answers "expired" exactly when the expiration is strictly
  before the current unix time (the clock in milliseconds, divided by 1000 and rounded
  down), whatever the signatures are; otherwise "not-signed" when the signature of the
  active party (issuer for self and sharing permits, recipient for recipient permits)
  is still \<open>"0x"\<close>; otherwise valid. The expiration is checked first.
\<close>

theorem isValid_cases:
  "isValid now p =
     (if expiration p < now div 1000 then \<lparr>valid = False, error = Some ''expired''\<rparr>
      else if (case type p of Recipient \<Rightarrow> recipientSignature p | _ \<Rightarrow> issuerSignature p) = ''0x''
           then \<lparr>valid = False, error = Some ''not-signed''\<rparr>
      else \<lparr>valid = True, error = None\<rparr>)"
  by (cases "type p") (simp_all add: isValid_def isExpired_def isSigned_def)

theorem isValid_cases_witness:
  "isValid 1001000 (examplePermit\<lparr>issuerSignature := ''0xabc''\<rparr>) = \<lparr>valid = False, error = Some ''expired''\<rparr>
   \<and> isValid 1000999 (examplePermit\<lparr>issuerSignature := ''0xabc''\<rparr>) = \<lparr>valid = True, error = None\<rparr>"
  using isValid_cases [of 1001000 "examplePermit\<lparr>issuerSignature := ''0xabc''\<rparr>"]
        isValid_cases [of 1000999 "examplePermit\<lparr>issuerSignature := ''0xabc''\<rparr>"]
  by (simp add: examplePermit_def)

subsection \<open>Signing payload\<close>

text \<open>
  C2: the signing payload built for a permit has exactly the fields of the variant of
  its kind, each with the permit's own value: six for a self permit, the same without
  \<open>sealingKey\<close> for a sharing permit, \<open>sealingKey\<close> and \<open>issuerSignature\<close> for a
  recipient permit; the type declaration lists those fields with their types in the
  order of the master list. Building the payload never fails.
\<close>

theorem getSignatureParams_fields:
  "getSignatureParams fullyFormed c (signPrimaryType p) p =
     Inr \<lparr>types =
            (case type p of
               Self \<Rightarrow>
                 [(''PermissionedIssuerSelf'',
                   [(''issuer'', ''address''), (''expiration'', ''uint64''),
                    (''recipient'', ''address''), (''validatorId'', ''uint256''),
                    (''validatorContract'', ''address''), (''sealingKey'', ''bytes32'')])]
             | Sharing \<Rightarrow>
                 [(''PermissionedIssuerShared'',
                   [(''issuer'', ''address''), (''expiration'', ''uint64''),
                    (''recipient'', ''address''), (''validatorId'', ''uint256''),
                    (''validatorContract'', ''address'')])]
             | Recipient \<Rightarrow>
                 [(''PermissionedRecipient'',
                   [(''sealingKey'', ''bytes32''), (''issuerSignature'', ''bytes'')])]),
          primaryType =
            (case type p of
               Self \<Rightarrow> ''PermissionedIssuerSelf''
             | Sharing \<Rightarrow> ''PermissionedIssuerShared''
             | Recipient \<Rightarrow> ''PermissionedRecipient''),
          message =
            (case type p of
               Self \<Rightarrow>
                 [(''issuer'', JStr (issuer p)), (''expiration'', JNum (expiration p)),
                  (''recipient'', JStr (recipient p)), (''validatorId'', JNum (validatorId p)),
                  (''validatorContract'', JStr (validatorContract p)),
                  (''sealingKey'', JStr (''0x'' @ publicKey (sealingPair p)))]
             | Sharing \<Rightarrow>
                 [(''issuer'', JStr (issuer p)), (''expiration'', JNum (expiration p)),
                  (''recipient'', JStr (recipient p)), (''validatorId'', JNum (validatorId p)),
                  (''validatorContract'', JStr (validatorContract p))]
             | Recipient \<Rightarrow>
                 [(''sealingKey'', JStr (''0x'' @ publicKey (sealingPair p))),
                  (''issuerSignature'', JStr (issuerSignature p))]),
          domain = getSignatureDomain c\<rparr>"
  by (cases "type p")
     (simp_all add: getSignatureParams_def getPermission_def getInterface_def
        signPrimaryType_def getSignatureTypesAndMessage_def PermitSignatureAllFields_def)

theorem getSignatureParams_fields_witness:
  "map_option (\<lambda>sp. map fst (message sp))
     (case getSignatureParams (\<lambda>_. False) ''1'' (signPrimaryType examplePermit) examplePermit of
        Inl e \<Rightarrow> None | Inr sp \<Rightarrow> Some sp)
   = Some [''issuer'', ''expiration'', ''recipient'', ''validatorId'', ''validatorContract'',
           ''sealingKey'']"
  using getSignatureParams_fields [of "\<lambda>_. False" "''1''" examplePermit]
  by (simp add: examplePermit_def)

subsection \<open>Signing domain\<close>




subsection \<open>Identity hash\<close>



subsection \<open>Serialization round trip\<close>

text \<open>
  C4: deserializing a serialized permit gives the permit back: the same hash, the same
  issuer and recipient signatures, the same signed chain id, the same sealing public
  key, and the sealing private key exactly as it was.
\<close>

theorem deserialize_serialize_roundtrip:
  "deserialize (serialize p) = p
   \<and> getHash ext (deserialize (serialize p)) = getHash ext p
   \<and> issuerSignature (deserialize (serialize p)) = issuerSignature p
   \<and> recipientSignature (deserialize (serialize p)) = recipientSignature p
   \<and> signedChainId (deserialize (serialize p)) = signedChainId p
   \<and> publicKey (sealingPair (deserialize (serialize p))) = publicKey (sealingPair p)
   \<and> privateKey (sealingPair (deserialize (serialize p))) = privateKey (sealingPair p)
   \<and> s_privateKey (sealingPair (serialize p)) = privateKey (sealingPair p)"
  by (simp add: deserialize_serialize) (simp add: serialize_def getInterface_def)

subsection \<open>Export\<close>

text \<open>
  C6, as stated: the export holds the issuer's signature whenever it is not \<open>"0x"\<close>.
  A signed self permit is exported without it.
\<close>

theorem cleanedPermit_counterexample:
  "issuerSignature (examplePermit\<lparr>issuerSignature := ''0xabc''\<rparr>) \<noteq> ''0x''
   \<and> map fst (cleanedPermit (examplePermit\<lparr>issuerSignature := ''0xabc''\<rparr>))
       = [''name'', ''type'', ''issuer'', ''expiration'']"
  by (simp add: cleanedPermit_def examplePermit_def)

text \<open>
  C6, amended: the export is the JSON text of an object with exactly the fields name,
  type, issuer and expiration, then the recipient when it is not the zero address,
  the validator id when it is not 0, the validator contract when it is not the zero
  address, and the issuer's signature when the permit is a sharing permit and the
  signature is not \<open>"0x"\<close>.
\<close>

theorem cleanedPermit_fields:
  "exportPermit ext p = JSON_stringify ext (JObj (cleanedPermit p)) 2
   \<and> cleanedPermit p =
       [(''name'', JStr (name p)),
        (''type'', JStr (typeName (type p))),
        (''issuer'', JStr (issuer p)),
        (''expiration'', JNum (expiration p))]
       @ (if recipient p \<noteq> ZeroAddress then [(''recipient'', JStr (recipient p))] else [])
       @ (if validatorId p \<noteq> 0 then [(''validatorId'', JNum (validatorId p))] else [])
       @ (if validatorContract p \<noteq> ZeroAddress
          then [(''validatorContract'', JStr (validatorContract p))] else [])
       @ (if type p = Sharing \<and> issuerSignature p \<noteq> ''0x''
          then [(''issuerSignature'', JStr (issuerSignature p))] else [])"
  by (simp add: exportPermit_def cleanedPermit_def Let_def)

theorem cleanedPermit_fields_witness:
  "map fst (cleanedPermit (examplePermit\<lparr>type := Sharing, issuerSignature := ''0xabc'',
                                         validatorId := 7\<rparr>))
     = [''name'', ''type'', ''issuer'', ''expiration'', ''validatorId'', ''issuerSignature'']"
  using cleanedPermit_fields
          [where ext = exampleExternals
             and p = "examplePermit\<lparr>type := Sharing, issuerSignature := ''0xabc'',
                                    validatorId := 7\<rparr>"]
  by (simp add: examplePermit_def)

subsection \<open>Signing\<close>

text \<open>
  C5: \<open>sign\<close> fails when the chain id is absent or the signer is absent, and when the
  signer rejects; and whenever \<open>sign\<close> fails the permit is left as it was: issuer
  signature, recipient signature and signed chain id are unchanged.
\<close>

theorem sign_failure:
  "(chain = None \<or> signer = None \<longrightarrow> isl (fst (sign ff chain signer p)))
   \<and> (\<forall>c s params reason.
         chain = Some c \<and> signer = Some s
         \<and> getSignatureParams ff c (signPrimaryType p) p = Inr params
         \<and> signTypedData s (domain params) (types params) (message params) = Inl reason
         \<longrightarrow> sign ff chain signer p = (Inl (SignerRejected reason), p))
   \<and> (isl (fst (sign ff chain signer p))
        \<longrightarrow> snd (sign ff chain signer p) = p
          \<and> issuerSignature (snd (sign ff chain signer p)) = issuerSignature p
          \<and> recipientSignature (snd (sign ff chain signer p)) = recipientSignature p
          \<and> signedChainId (snd (sign ff chain signer p)) = signedChainId p)"
  by (auto simp: sign_def Let_def split: option.splits sum.splits)

theorem sign_failure_witness:
  "sign (\<lambda>_. True) (Some ''1'') (Some \<lparr>signTypedData = (\<lambda>_ _ _. Inl ''rejected'')\<rparr>) examplePermit
     = (Inl (SignerRejected ''rejected''), examplePermit)
   \<and> sign (\<lambda>_. True) None (Some \<lparr>signTypedData = (\<lambda>_ _ _. Inr ''0xabc'')\<rparr>) examplePermit
     = (Inl ChainIdUndefined, examplePermit)"
  using sign_failure
          [where chain = "Some ''1''"
             and signer = "Some \<lparr>signTypedData = (\<lambda>_ _ _. Inl ''rejected'')\<rparr>"
             and ff = "\<lambda>_. True" and p = examplePermit]
        sign_failure
          [where chain = None
             and signer = "Some \<lparr>signTypedData = (\<lambda>_ _ _. Inr ''0xabc'')\<rparr>"
             and ff = "\<lambda>_. True" and p = examplePermit]
  by (simp add: sign_def getSignatureParams_def getPermission_def Let_def)

subsection \<open>Permit store\<close>






subsection \<open>Unsealing\<close>

text \<open>
  C9 says that every sealed address is replaced by the checksummed address of the low
  160 bits of the decrypted integer. The code renders the integer in hex without
  leading zeros and keeps its last 40 characters, so for an integer below \<open>16^39\<close>,
  an address whose first hex digit is 0, \<open>getAddress\<close> is given fewer than 40 digits
  and throws: \<^verbatim>\<open>unseal\<close> fails instead of returning the address.
\<close>

theorem unseal_short_address_fails:
  assumes "\<not> chainIsHardhat ext (signedChainId p)"
    and "sealingKeyUnseal ext (sealingPair p) ct = bn"
    and "0 \<le> bn" and "bn < 16 ^ 39"
  shows "unseal ext p (JObj [(''data'', JStr ct), (''utype'', JNum (FheTypes_value Uint160))])
           = Inl (InvalidAddress (''0x'' @ toString16 bn))"
proof -
  from assms(3,4) have "nat bn < 16 ^ 39"
    by (metis nat_less_iff of_nat_numeral of_nat_power)
  then have len: "length (natToHex (nat bn)) \<le> 39"
    by (intro length_natToHex) simp_all
  then have sl: "sliceLast 40 (toString16 bn) = toString16 bn"
    using assms(3) by (simp add: sliceLast_def toString16_def)
  from len assms(3) have "\<not> isAddressHex (''0x'' @ toString16 bn)"
    by (simp add: isAddressHex_def toString16_def)
  then have "getAddress ext (''0x'' @ toString16 bn) = Inl (InvalidAddress (''0x'' @ toString16 bn))"
    by (simp add: getAddress_def)
  with sl assms(1,2) show ?thesis
    by (simp add: unsealSealedItem_def getAsSealedItem_def FheAllUTypes_def isSealedBool_def
        isSealedAddress_def)
qed

theorem unseal_short_address_fails_witness:
  "unseal exampleExternals examplePermit
     (JObj [(''data'', JStr ''ct''), (''utype'', JNum (FheTypes_value Uint160))])
   = Inl (InvalidAddress ''0x1'')"
  using unseal_short_address_fails
          [where ext = exampleExternals and p = examplePermit and ct = "''ct''" and bn = 1]
  by (simp add: exampleExternals_def toString16_one)

end
